theory Spec2Isabelle
  imports Main "HOL-Library.Multiset"
begin

section \<open>Event publishing: the events service of pkg/services/eventactions/manager\<close>

text \<open>
  The development follows \<^verbatim>\<open>service.go\<close>: the two request builders
  (\<^verbatim>\<open>createRunnerRequest\<close>, \<^verbatim>\<open>createWebhookRequest\<close>), the executor
  \<^verbatim>\<open>RunEventAction\<close> and the dispatcher \<^verbatim>\<open>Publish\<close> with its pool of worker
  goroutines. Go's standard library is not part of the repository; where the service
  depends on what a library call decides (whether a URL parses, how path elements are
  joined) the call is a parameter of the model; the library types the service only
  fills in (headers, multipart parts, JSON documents) are modelled structurally; and
  where the library changes what the service hands to it (\<^verbatim>\<open>json.Marshal\<close> on strings
  that are not UTF-8) or can panic (\<^verbatim>\<open>sync.WaitGroup\<close>), the model follows the
  library's implementation.
\<close>

subsection \<open>Errors and JSON documents\<close>

text \<open>
  A Go \<^verbatim>\<open>error\<close>: a message, or another error wrapped with a message as
  \<^verbatim>\<open>fmt.Errorf("msg: %w", err)\<close> does.
\<close>

datatype error = Err string | Wrap string error

text \<open>
  The document that \<^verbatim>\<open>json.Marshal\<close> writes, as a tree: the bytes on the wire are
  the standard encoding of this tree, and decoding them gives the tree back. Objects keep
  their members in the order written.
\<close>

datatype json =
    JNull
  | JBool bool
  | JNumber int
  | JString string
  | JArray "json list"
  | JObject "(string \<times> json) list"

subsection \<open>Strings that are not UTF-8\<close>

text \<open>
  A Go string is any sequence of bytes. When \<^verbatim>\<open>json.Marshal\<close> writes a string it
  decodes it rune by rune (\<^verbatim>\<open>utf8.DecodeRuneInString\<close>) and writes
  \<^verbatim>\<open>\ufffd\<close> for every byte that does not start a valid encoding, so the string in
  the document has the three bytes of U+FFFD in place of each such byte. All other
  escapes of the encoder decode to the character they stand for.

  \<open>runeLen s\<close> is the length of the encoding at the head of \<open>s\<close>, or \<open>0\<close> when
  the first byte does not start one (the tables \<^verbatim>\<open>first\<close> and \<^verbatim>\<open>acceptRanges\<close> of
  package \<^verbatim>\<open>unicode/utf8\<close>: no overlong forms, no surrogates, nothing above
  U+10FFFF).
\<close>

definition byte :: "char \<Rightarrow> nat" where
  "byte c = of_char c"

definition cont :: "nat \<Rightarrow> nat \<Rightarrow> string \<Rightarrow> nat \<Rightarrow> bool" where
  "cont lo hi cs i = (i < length cs \<and> lo \<le> byte (cs ! i) \<and> byte (cs ! i) \<le> hi)"

definition runeLen :: "string \<Rightarrow> nat" where
  "runeLen s =
     (case s of
        [] \<Rightarrow> 0
      | c # cs \<Rightarrow>
          (let b = byte c in
           if b < 0x80 then 1
           else if 0xC2 \<le> b \<and> b \<le> 0xDF then
             (if cont 0x80 0xBF cs 0 then 2 else 0)
           else if b = 0xE0 then
             (if cont 0xA0 0xBF cs 0 \<and> cont 0x80 0xBF cs 1 then 3 else 0)
           else if (0xE1 \<le> b \<and> b \<le> 0xEC) \<or> b = 0xEE \<or> b = 0xEF then
             (if cont 0x80 0xBF cs 0 \<and> cont 0x80 0xBF cs 1 then 3 else 0)
           else if b = 0xED then
             (if cont 0x80 0x9F cs 0 \<and> cont 0x80 0xBF cs 1 then 3 else 0)
           else if b = 0xF0 then
             (if cont 0x90 0xBF cs 0 \<and> cont 0x80 0xBF cs 1 \<and> cont 0x80 0xBF cs 2
              then 4 else 0)
           else if 0xF1 \<le> b \<and> b \<le> 0xF3 then
             (if cont 0x80 0xBF cs 0 \<and> cont 0x80 0xBF cs 1 \<and> cont 0x80 0xBF cs 2
              then 4 else 0)
           else if b = 0xF4 then
             (if cont 0x80 0x8F cs 0 \<and> cont 0x80 0xBF cs 1 \<and> cont 0x80 0xBF cs 2
              then 4 else 0)
           else 0))"

text \<open>
  The scan of the encoder; \<open>k\<close> counts the bytes still to copy of the encoding
  being read.
\<close>

fun coerceFrom :: "nat \<Rightarrow> string \<Rightarrow> string" where
  "coerceFrom k [] = []"
| "coerceFrom (Suc k) (c # cs) = c # coerceFrom k cs"
| "coerceFrom 0 (c # cs) =
     (case runeLen (c # cs) of
        0 \<Rightarrow> [CHR 0xEF, CHR 0xBF, CHR 0xBD] @ coerceFrom 0 cs
      | Suc n \<Rightarrow> c # coerceFrom n cs)"

definition coerceUTF8 :: "string \<Rightarrow> string" where
  "coerceUTF8 s = coerceFrom 0 s"

text \<open>\<^verbatim>\<open>utf8.ValidString\<close>: the same scan meets no such byte.\<close>

fun validFrom :: "nat \<Rightarrow> string \<Rightarrow> bool" where
  "validFrom k [] = True"
| "validFrom (Suc k) (c # cs) = validFrom k cs"
| "validFrom 0 (c # cs) =
     (case runeLen (c # cs) of
        0 \<Rightarrow> False
      | Suc n \<Rightarrow> validFrom n cs)"

definition ValidString :: "string \<Rightarrow> bool" where
  "ValidString s = validFrom 0 s"

subsection \<open>Payloads\<close>

text \<open>
  An event payload is an \<^verbatim>\<open>interface{}\<close>: either a value that has a JSON encoding
  (nil, a boolean, an integer, a string, a slice, a string-keyed map or a struct,
  written as the tree of its parts, with Go strings at the leaves and as keys), or one
  that \<^verbatim>\<open>json.Marshal\<close> rejects (a channel, a function). The document
  \<^verbatim>\<open>json.Marshal\<close> writes for a value is its tree with every string coerced.
\<close>

datatype payload = Encodable json | Unsupported

fun coerceDoc :: "json \<Rightarrow> json" where
  "coerceDoc JNull = JNull"
| "coerceDoc (JBool b) = JBool b"
| "coerceDoc (JNumber n) = JNumber n"
| "coerceDoc (JString s) = JString (coerceUTF8 s)"
| "coerceDoc (JArray xs) = JArray (map coerceDoc xs)"
| "coerceDoc (JObject kvs) = JObject (map (\<lambda>(k, v). (coerceUTF8 k, coerceDoc v)) kvs)"

definition json_Marshal :: "payload \<Rightarrow> error + json" where
  "json_Marshal v =
     (case v of
        Encodable j \<Rightarrow> Inr (coerceDoc j)
      | Unsupported \<Rightarrow> Inl (Err ''json: unsupported type''))"

text \<open>A payload that has an encoding and whose strings are all valid UTF-8.\<close>

fun ValidDoc :: "json \<Rightarrow> bool" where
  "ValidDoc JNull = True"
| "ValidDoc (JBool b) = True"
| "ValidDoc (JNumber n) = True"
| "ValidDoc (JString s) = ValidString s"
| "ValidDoc (JArray xs) = list_all ValidDoc xs"
| "ValidDoc (JObject kvs) = list_all (\<lambda>(k, v). ValidString k \<and> ValidDoc v) kvs"

definition ValidPayload :: "payload \<Rightarrow> bool" where
  "ValidPayload v = (case v of Encodable j \<Rightarrow> ValidDoc j | Unsupported \<Rightarrow> False)"

subsection \<open>Action definitions and the structs of the service\<close>

text \<open>
  \<^verbatim>\<open>eventactions.EventActionDetailsDTO\<close>, with the fields the service reads.
\<close>

record EventActionDetailsDTO =
  Id :: int
  OrgId :: int
  Name :: string
  Type :: string
  URL :: string
  Script :: string
  ScriptLanguage :: string
  RunnerSecret :: string

text \<open>\<^verbatim>\<open>runnerMetadata\<close> (service.go, lines 127 to 131) and its JSON tags.\<close>

record runnerMetadata =
  MetaName :: string
  Lang :: string
  Entry :: string

definition marshal_runnerMetadata :: "runnerMetadata \<Rightarrow> error + json" where
  "marshal_runnerMetadata m =
     Inr (JObject [(''name'', JString (coerceUTF8 (MetaName m))),
                   (''lang'', JString (coerceUTF8 (Lang m))),
                   (''entrypoint'', JString (coerceUTF8 (Entry m)))])"

definition decode_runnerMetadata :: "json \<Rightarrow> runnerMetadata option" where
  "decode_runnerMetadata j =
     (case j of
        JObject kvs \<Rightarrow>
          (case (map_of kvs ''name'', map_of kvs ''lang'', map_of kvs ''entrypoint'') of
             (Some (JString n), Some (JString l), Some (JString e)) \<Rightarrow>
               Some \<lparr>MetaName = n, Lang = l, Entry = e\<rparr>
           | _ \<Rightarrow> None)
      | _ \<Rightarrow> None)"

text \<open>
  \<^verbatim>\<open>eventactions.PublishEvent\<close>, the envelope a webhook receives.
\<close>

record PublishEvent =
  EventName :: string
  EventOrgId :: int
  Payload :: payload

text \<open>
  Modelled from the spec: the JSON member names of \<^verbatim>\<open>eventactions.PublishEvent\<close>,
  whose declaration is outside \<^verbatim>\<open>service.go\<close>; the webhook wire protocol is a JSON
  body \<^verbatim>\<open>{eventName, orgId, payload}\<close>. The values are written by
  \<^verbatim>\<open>json.Marshal\<close>: the event name coerced as every string is, the payload as
  \<open>json_Marshal\<close> writes it. Marshalling fails exactly when the payload has no
  encoding.
\<close>

definition marshal_PublishEvent :: "PublishEvent \<Rightarrow> error + json" where
  "marshal_PublishEvent ev =
     (case json_Marshal (Payload ev) of
        Inl err \<Rightarrow> Inl err
      | Inr p \<Rightarrow>
          Inr (JObject [(''eventName'', JString (coerceUTF8 (EventName ev))),
                        (''orgId'', JNumber (EventOrgId ev)),
                        (''payload'', p)]))"

definition decode_PublishEvent :: "json \<Rightarrow> PublishEvent option" where
  "decode_PublishEvent j =
     (case j of
        JObject kvs \<Rightarrow>
          (case (map_of kvs ''eventName'', map_of kvs ''orgId'', map_of kvs ''payload'') of
             (Some (JString e), Some (JNumber n), Some p) \<Rightarrow>
               Some \<lparr>EventName = e, EventOrgId = n, Payload = Encodable p\<rparr>
           | _ \<Rightarrow> None)
      | _ \<Rightarrow> None)"

subsection \<open>HTTP requests, multipart bodies\<close>

text \<open>
  Bytes handed to a body or to a multipart part: text written verbatim
  (\<^verbatim>\<open>io.WriteString\<close>), or the encoding of a document returned by
  \<^verbatim>\<open>json.Marshal\<close>.
\<close>

datatype bytes = Text string | Document json

type_synonym header = "string \<Rightarrow> string list option"

text \<open>
  \<^verbatim>\<open>Header.Set\<close> and \<^verbatim>\<open>MIMEHeader.Set\<close> replace the values stored under a
  key. (The keys this service sets are already in canonical form.)
\<close>

definition Header_Set :: "header \<Rightarrow> string \<Rightarrow> string \<Rightarrow> header" where
  "Header_Set h k v = h(k \<mapsto> [v])"

record part =
  PartHeader :: header
  PartData :: "bytes list"

text \<open>
  A \<^verbatim>\<open>multipart.Writer\<close> over a \<^verbatim>\<open>bytes.Buffer\<close>: the boundary it drew when
  it was created, the parts written so far (the last one is the open part) and whether
  the closing boundary has been written. Writes to a buffer do not fail; the writer's own
  checks do.
\<close>

record multipart =
  Boundary :: string
  Parts :: "part list"
  Closed :: bool

definition NewWriter :: "string \<Rightarrow> multipart" where
  "NewWriter boundary = \<lparr>Boundary = boundary, Parts = [], Closed = False\<rparr>"

definition CreatePart :: "multipart \<Rightarrow> header \<Rightarrow> error + multipart" where
  "CreatePart w hdr = Inr (w\<lparr>Parts := Parts w @ [\<lparr>PartHeader = hdr, PartData = []\<rparr>]\<rparr>)"

definition escapeQuotes :: "string \<Rightarrow> string" where
  "escapeQuotes s =
     concat (map (\<lambda>c. if c = CHR 0x5C then [CHR 0x5C, CHR 0x5C]
                       else if c = CHR 0x22 then [CHR 0x5C, CHR 0x22]
                       else [c]) s)"

definition CreateFormFile :: "multipart \<Rightarrow> string \<Rightarrow> string \<Rightarrow> error + multipart" where
  "CreateFormFile w fieldname filename =
     CreatePart w
       (Header_Set
          (Header_Set Map.empty ''Content-Disposition''
             (''form-data; name=\"'' @ escapeQuotes fieldname @ ''\"; filename=\"''
                @ escapeQuotes filename @ ''\"''))
          ''Content-Type'' ''application/octet-stream'')"

text \<open>
  Writing to the part returned by the latest \<^verbatim>\<open>CreatePart\<close>; a part is finished
  once the writer is closed.
\<close>

definition part_Write :: "multipart \<Rightarrow> bytes \<Rightarrow> error + multipart" where
  "part_Write w b =
     (if Closed w \<or> Parts w = [] then Inl (Err ''multipart: can't write to finished part'')
      else Inr (w\<lparr>Parts := butlast (Parts w)
                     @ [(last (Parts w))\<lparr>PartData := PartData (last (Parts w)) @ [b]\<rparr>]\<rparr>))"

definition Close :: "multipart \<Rightarrow> error + multipart" where
  "Close w = Inr (w\<lparr>Closed := True\<rparr>)"

definition FormDataContentType :: "multipart \<Rightarrow> string" where
  "FormDataContentType w =
     (let b = Boundary w;
          b' = (if list_ex (\<lambda>c. c \<in> set ''()<>@,;:'' \<union> {CHR 0x5C, CHR 0x22} \<union> set ''/[]?= '') b
                then ''\"'' @ b @ ''\"'' else b)
      in ''multipart/form-data; boundary='' @ b')"

text \<open>
  The form name of a part, read from its \<^verbatim>\<open>Content-Disposition\<close> header as
  \<^verbatim>\<open>Part.FormName\<close> does for the headers written here: the \<^verbatim>\<open>name\<close>
  parameter of a \<^verbatim>\<open>form-data\<close> disposition, the empty string otherwise.
\<close>

definition FormName :: "part \<Rightarrow> string" where
  "FormName p =
     (case PartHeader p ''Content-Disposition'' of
        Some [v] \<Rightarrow>
          (if take 17 v = ''form-data; name=\"''
           then takeWhile (\<lambda>c. c \<noteq> CHR 0x22) (drop 17 v)
           else [])
      | _ \<Rightarrow> [])"

datatype body = Plain bytes | Multipart multipart

text \<open>
  An \<^verbatim>\<open>http.Request\<close>; \<open>'u\<close> is the parsed \<^verbatim>\<open>url.URL\<close>.
\<close>

record 'u request =
  Method :: string
  URL_req :: 'u
  Header :: header
  Body_req :: body

text \<open>
  What the service takes from outside this file: the two action type constants of
  package \<^verbatim>\<open>eventactions\<close>, and \<^verbatim>\<open>net/url\<close> (\<^verbatim>\<open>url.Parse\<close>, which
  \<^verbatim>\<open>http.NewRequest\<close> calls, and \<^verbatim>\<open>url.JoinPath\<close>).
\<close>

record 'u env =
  ActionTypeCode :: string
  ActionTypeWebhook :: string
  url_Parse :: "string \<Rightarrow> error + 'u"
  url_JoinPath :: "string \<Rightarrow> string list \<Rightarrow> error + string"

definition http_NewRequest :: "'u env \<Rightarrow> string \<Rightarrow> string \<Rightarrow> body \<Rightarrow> error + 'u request" where
  "http_NewRequest lib method url b =
     (case url_Parse lib url of
        Inl err \<Rightarrow> Inl err
      | Inr u \<Rightarrow> Inr \<lparr>Method = method, URL_req = u, Header = Map.empty, Body_req = b\<rparr>)"

subsection \<open>The request builders\<close>

text \<open>
  \<^verbatim>\<open>createRunnerRequest\<close> (lines 176 to 242). The boundary is the random string
  \<^verbatim>\<open>multipart.NewWriter\<close> draws; it is an input here.
\<close>

definition createRunnerRequest ::
  "'u env \<Rightarrow> string \<Rightarrow> string \<Rightarrow> payload \<Rightarrow> EventActionDetailsDTO \<Rightarrow> error + 'u request" where
  "createRunnerRequest lib boundary eventName eventPayload action =
     (case marshal_runnerMetadata
             \<lparr>MetaName = Name action, Lang = ScriptLanguage action, Entry = ''file1''\<rparr> of
        Inl err \<Rightarrow> Inl (Wrap ''cannot serialize runner metadata'' err)
      | Inr metadata \<Rightarrow>
     (case json_Marshal eventPayload of
        Inl err \<Rightarrow> Inl (Wrap ''cannot serialize event payload'' err)
      | Inr marshalledPayload \<Rightarrow>
     (case CreateFormFile (NewWriter boundary) ''file1'' ''file1'' of
        Inl err \<Rightarrow> Inl err
      | Inr w1 \<Rightarrow>
     (case part_Write w1 (Text (Script action)) of
        Inl err \<Rightarrow> Inl err
      | Inr w2 \<Rightarrow>
     (case CreatePart w2
             (Header_Set
                (Header_Set Map.empty ''Content-Disposition'' ''form-data; name=\"metadata\"'')
                ''Content-Type'' ''application/json'') of
        Inl err \<Rightarrow> Inl err
      | Inr w3 \<Rightarrow>
     (case part_Write w3 (Document metadata) of
        Inl err \<Rightarrow> Inl err
      | Inr w4 \<Rightarrow>
     (case CreatePart w4
             (Header_Set
                (Header_Set Map.empty ''Content-Disposition'' ''form-data; name=\"event\"'')
                ''Content-Type'' ''application/json'') of
        Inl err \<Rightarrow> Inl err
      | Inr w5 \<Rightarrow>
     (case part_Write w5 (Document marshalledPayload) of
        Inl err \<Rightarrow> Inl err
      | Inr w6 \<Rightarrow>
     (case Close w6 of
        Inl err \<Rightarrow> Inl err
      | Inr w7 \<Rightarrow>
     (case url_JoinPath lib (URL action) [''execute''] of
        Inl err \<Rightarrow> Inl (Wrap ''cannot create runner URL'' err)
      | Inr url \<Rightarrow>
     (case http_NewRequest lib ''POST'' url (Multipart w7) of
        Inl err \<Rightarrow> Inl (Wrap ''cannot create runner request'' err)
      | Inr req \<Rightarrow>
          Inr (req\<lparr>Header :=
                 Header_Set
                   (Header_Set (Header req) ''Authorization'' (''Bearer '' @ RunnerSecret action))
                   ''Content-Type'' (FormDataContentType w7)\<rparr>))))))))))))"

text \<open>\<^verbatim>\<open>createWebhookRequest\<close> (lines 244 to 262).\<close>

definition createWebhookRequest ::
  "'u env \<Rightarrow> string \<Rightarrow> payload \<Rightarrow> EventActionDetailsDTO \<Rightarrow> error + 'u request" where
  "createWebhookRequest lib eventName eventPayload action =
     (case marshal_PublishEvent
             \<lparr>EventName = eventName, EventOrgId = OrgId action, Payload = eventPayload\<rparr> of
        Inl err \<Rightarrow> Inl (Wrap ''cannot serialize external webhook payload'' err)
      | Inr b \<Rightarrow>
     (case http_NewRequest lib ''POST'' (URL action) (Plain (Document b)) of
        Inl err \<Rightarrow> Inl (Wrap ''cannot create webhook request'' err)
      | Inr req \<Rightarrow>
          Inr (req\<lparr>Header := Header_Set (Header req) ''Content-Type'' ''application/json''\<rparr>)))"

text \<open>
  What a receiver decodes from a builder's result: the envelope in the body of a webhook
  request, the metadata in the second of three parts of a runner request.
\<close>

definition decoded_body :: "error + 'u request \<Rightarrow> PublishEvent option" where
  "decoded_body r =
     (case r of
        Inl err \<Rightarrow> None
      | Inr req \<Rightarrow>
          (case Body_req req of
             Plain (Document b) \<Rightarrow> decode_PublishEvent b
           | _ \<Rightarrow> None))"

definition decoded_metadata :: "error + 'u request \<Rightarrow> runnerMetadata option" where
  "decoded_metadata r =
     (case r of
        Inl err \<Rightarrow> None
      | Inr req \<Rightarrow>
          (case Body_req req of
             Multipart m \<Rightarrow>
               (case Parts m of
                  [file1, metadata, event] \<Rightarrow>
                    (case PartData metadata of
                       [Document d] \<Rightarrow> decode_runnerMetadata d
                     | _ \<Rightarrow> None)
                | _ \<Rightarrow> None)
           | _ \<Rightarrow> None))"

subsection \<open>The executor\<close>

text \<open>
  A response body is a stream: its bytes, then end of file or a read error.
  \<^verbatim>\<open>io.ReadAll\<close> returns the bytes in the first case and the error in the second.
\<close>

datatype reader = Reader string "error option"

definition io_ReadAll :: "reader \<Rightarrow> error + string" where
  "io_ReadAll r = (case r of Reader bs None \<Rightarrow> Inr bs | Reader bs (Some err) \<Rightarrow> Inl err)"

record response =
  StatusCode :: int
  Body_resp :: reader

record RunResponse =
  Code :: int
  Body :: string

text \<open>
  \<^verbatim>\<open>EventsService\<close>: \<open>actions\<close> stands for the store's
  \<^verbatim>\<open>RetrieveEventActionsByRegisteredEvent\<close>, \<open>client\<close> for \<^verbatim>\<open>client.Do\<close>.
  A call that never returns is outside the model.
\<close>

record 'u EventsService =
  actions :: "int \<Rightarrow> string \<Rightarrow> error + EventActionDetailsDTO list"
  client :: "'u request \<Rightarrow> error + response"

type_synonym 'u createRequestFunc =
  "string \<Rightarrow> payload \<Rightarrow> EventActionDetailsDTO \<Rightarrow> error + 'u request"

text \<open>
  The \<^verbatim>\<open>switch\<close> of \<^verbatim>\<open>RunEventAction\<close> (lines 265 to 273): the variable
  \<^verbatim>\<open>createRequest\<close> starts as \<^verbatim>\<open>nil\<close> and there is no default case.
\<close>

definition selectCreateRequest ::
  "'u env \<Rightarrow> string \<Rightarrow> EventActionDetailsDTO \<Rightarrow> 'u createRequestFunc option" where
  "selectCreateRequest lib boundary action =
     (if Type action = ActionTypeCode lib then Some (createRunnerRequest lib boundary)
      else if Type action = ActionTypeWebhook lib then Some (createWebhookRequest lib)
      else None)"

text \<open>
  How a call ends without a result: a run-time panic (calling a \<^verbatim>\<open>nil\<close> function
  value), or a returned error.
\<close>

datatype failure = Panic | Failed error

definition RunEventAction ::
  "'u env \<Rightarrow> 'u EventsService \<Rightarrow> string \<Rightarrow> EventActionDetailsDTO \<Rightarrow> string \<Rightarrow> payload
     \<Rightarrow> failure + RunResponse" where
  "RunEventAction lib s boundary action eventName eventPayload =
     (case selectCreateRequest lib boundary action of
        None \<Rightarrow> Inl Panic
      | Some createRequest \<Rightarrow>
     (case createRequest eventName eventPayload action of
        Inl err \<Rightarrow> Inl (Failed (Wrap ''cannot create request'' err))
      | Inr req \<Rightarrow>
     (case client s req of
        Inl err \<Rightarrow> Inl (Failed (Wrap ''cannot perform request'' err))
      | Inr resp \<Rightarrow>
     (case io_ReadAll (Body_resp resp) of
        Inl err \<Rightarrow> Inl (Failed (Wrap ''cannot read response body'' err))
      | Inr b \<Rightarrow> Inr \<lparr>Code = StatusCode resp, Body = b\<rparr>))))"

subsection \<open>The wait group\<close>

text \<open>
  \<^verbatim>\<open>sync.WaitGroup\<close> as package \<^verbatim>\<open>sync\<close> implements it. Its state is a counter
  and a number of waiters, read and changed together atomically, and a semaphore on
  which waiters sleep.

  \<^verbatim>\<open>Add(delta)\<close> adds to the counter and then looks at the new state: it panics when
  the counter is negative; it panics when there are waiters and the counter has just
  left zero; it returns when the counter is positive or nobody waits; otherwise the
  counter has reached zero with waiters, which this goroutine has to release.
  \<^verbatim>\<open>Done()\<close> is \<^verbatim>\<open>Add(-1)\<close>.
\<close>

datatype add_result = AddPanic string | AddReturn int | AddRelease int nat

definition wg_Add :: "int \<Rightarrow> nat \<Rightarrow> int \<Rightarrow> add_result" where
  "wg_Add v w delta =
     (let v' = v + delta in
      if v' < 0 then AddPanic ''sync: negative WaitGroup counter''
      else if w \<noteq> 0 \<and> 0 < delta \<and> v' = delta
        then AddPanic ''sync: WaitGroup misuse: Add called concurrently with Wait''
      else if 0 < v' \<or> w = 0 then AddReturn v'
      else AddRelease v' w)"

subsection \<open>Publish: the main goroutine and its workers\<close>

text \<open>
  \<^verbatim>\<open>Publish\<close> (lines 133 to 172) starts three goroutines that share the channel
  \<^verbatim>\<open>jobs\<close> and the wait group \<^verbatim>\<open>wg\<close>. The model is an interleaving
  semantics: a state holds the program point of the main goroutine and of each worker,
  the channel buffer, the state of the wait group, and what has been done so far; a step
  is one goroutine doing its next atomic operation. A panic that nothing recovers ends
  the run: the state is marked crashed, with the panic's message, and no goroutine moves
  any more.
\<close>

definition numWorkers :: nat where
  "numWorkers = 3"

datatype log_entry = LogError string error | LogInfo string nat

text \<open>
  Program points of the main goroutine: in the loop starting workers (\<open>w\<close> started
  so far), in the loop sending the remaining actions, before \<^verbatim>\<open>close(jobs)\<close>, at
  \<^verbatim>\<open>wg.Wait()\<close>, inside \<^verbatim>\<open>wg.Wait()\<close> asleep on the semaphore, inside
  \<^verbatim>\<open>wg.Wait()\<close> woken and about to check the state, and returned with the error or
  \<^verbatim>\<open>nil\<close>.
\<close>

datatype main_pc =
    Spawn nat
  | Send "EventActionDetailsDTO list"
  | CloseJobs
  | Wait
  | Sleeping
  | Woken
  | Returned "error option"

text \<open>
  Program points of a worker: started but before \<^verbatim>\<open>wg.Add(1)\<close>, at the channel
  receive of the \<^verbatim>\<open>range\<close> loop, inside \<^verbatim>\<open>RunEventAction\<close> for an action,
  inside \<^verbatim>\<open>Add\<close> or \<^verbatim>\<open>Done\<close> about to release the waiters it saw (with the
  program point to go on from), and exited (after the deferred \<^verbatim>\<open>wg.Done()\<close>).
\<close>

datatype worker_pc =
    WStart
  | WRecv
  | WRun EventActionDetailsDTO
  | WRelease nat worker_pc
  | WExit

record state =
  main :: main_pc
  acts :: "EventActionDetailsDTO list"
  workers :: "worker_pc list"
  jobs :: "EventActionDetailsDTO list"
  jobs_closed :: bool
  wg :: int
  waiters :: nat
  sema :: nat
  invoked :: "EventActionDetailsDTO list"
  completed :: "(EventActionDetailsDTO \<times> (failure + RunResponse)) list"
  logged :: "log_entry list"
  crashed :: bool
  panic_msg :: "string option"

record 'u call =
  lib :: "'u env"
  svc :: "'u EventsService"
  orgID :: int
  eventName :: string
  eventPayload :: payload

text \<open>
  Lines 134 to 138: the actions are resolved first; if that fails the error is logged and
  returned, and nothing else of \<^verbatim>\<open>Publish\<close> runs.
\<close>

definition Publish_start :: "'u call \<Rightarrow> state" where
  "Publish_start c =
     (case actions (svc c) (orgID c) (eventName c) of
        Inl err \<Rightarrow>
          \<lparr>main = Returned (Some err), acts = [], workers = [], jobs = [],
           jobs_closed = False, wg = 0, waiters = 0, sema = 0, invoked = [], completed = [],
           logged = [LogError ''retrieving event actions by registered event'' err],
           crashed = False, panic_msg = None\<rparr>
      | Inr as \<Rightarrow>
          \<lparr>main = Spawn 0, acts = as, workers = [], jobs = [],
           jobs_closed = False, wg = 0, waiters = 0, sema = 0, invoked = [], completed = [],
           logged = [], crashed = False, panic_msg = None\<rparr>)"

text \<open>
  One operation of the main goroutine (lines 158 to 171). The channel has capacity
  \<^verbatim>\<open>len(actions)\<close>: a send blocks while the buffer is full.

  \<^verbatim>\<open>wg.Wait()\<close> reads the state: with the counter at zero it returns at once;
  otherwise it adds itself to the waiters and sleeps on the semaphore. Once released it
  checks that the whole state is zero and panics if it is not.
\<close>

definition main_step :: "state \<Rightarrow> state option" where
  "main_step s =
     (case main s of
        Spawn w \<Rightarrow>
          (if w < numWorkers
           then Some (s\<lparr>workers := workers s @ [WStart], main := Spawn (w + 1)\<rparr>)
           else Some (s\<lparr>main := Send (acts s)\<rparr>))
      | Send pending \<Rightarrow>
          (case pending of
             [] \<Rightarrow> Some (s\<lparr>main := CloseJobs\<rparr>)
           | action # rest \<Rightarrow>
               (if length (jobs s) < length (acts s)
                then Some (s\<lparr>jobs := jobs s @ [action], main := Send rest\<rparr>)
                else None))
      | CloseJobs \<Rightarrow> Some (s\<lparr>jobs_closed := True, main := Wait\<rparr>)
      | Wait \<Rightarrow>
          (if wg s = 0
           then Some (s\<lparr>logged := logged s @ [LogInfo ''event published successfully''
                                                   (length (acts s))],
                        main := Returned None\<rparr>)
           else Some (s\<lparr>waiters := waiters s + 1, main := Sleeping\<rparr>))
      | Sleeping \<Rightarrow>
          (if 0 < sema s
           then Some (s\<lparr>sema := sema s - 1, main := Woken\<rparr>)
           else None)
      | Woken \<Rightarrow>
          (if wg s \<noteq> 0 \<or> waiters s \<noteq> 0
           then Some (s\<lparr>crashed := True,
                        panic_msg :=
                          Some ''sync: WaitGroup is reused before previous Wait has returned''\<rparr>)
           else Some (s\<lparr>logged := logged s @ [LogInfo ''event published successfully''
                                                   (length (acts s))],
                        main := Returned None\<rparr>))
      | Returned r \<Rightarrow> None)"

text \<open>
  One operation of worker \<open>i\<close> (lines 145 to 154). The worker first defers
  \<^verbatim>\<open>wg.Done()\<close> and calls \<^verbatim>\<open>wg.Add(1)\<close>, then receives until the channel is
  closed and empty, and leaves through the deferred \<^verbatim>\<open>wg.Done()\<close>. A receive blocks
  while the channel is open and empty. A goroutine that has brought the counter to zero
  with waiters checks that the state is still the one it saw (it panics otherwise), sets
  it to zero and releases the waiters. An error returned by \<^verbatim>\<open>RunEventAction\<close> is
  logged; a panic inside it runs the deferred \<^verbatim>\<open>wg.Done()\<close> and ends the process,
  as a panic of \<^verbatim>\<open>wg.Add\<close> or \<^verbatim>\<open>wg.Done\<close> does. \<open>boundary\<close> is the multipart
  boundary drawn if this operation builds a runner request.
\<close>

definition worker_step :: "'u call \<Rightarrow> nat \<Rightarrow> string \<Rightarrow> state \<Rightarrow> state option" where
  "worker_step c i boundary s =
     (if length (workers s) \<le> i then None
      else
       (case workers s ! i of
          WStart \<Rightarrow>
            (case wg_Add (wg s) (waiters s) 1 of
               AddPanic msg \<Rightarrow> Some (s\<lparr>crashed := True, panic_msg := Some msg\<rparr>)
             | AddReturn v \<Rightarrow> Some (s\<lparr>wg := v, workers := (workers s)[i := WRecv]\<rparr>)
             | AddRelease v w \<Rightarrow>
                 Some (s\<lparr>wg := v, workers := (workers s)[i := WRelease w WRecv]\<rparr>))
        | WRecv \<Rightarrow>
            (case jobs s of
               action # rest \<Rightarrow>
                 Some (s\<lparr>jobs := rest, invoked := invoked s @ [action],
                         workers := (workers s)[i := WRun action]\<rparr>)
             | [] \<Rightarrow>
                 (if jobs_closed s
                  then
                    (case wg_Add (wg s) (waiters s) (- 1) of
                       AddPanic msg \<Rightarrow> Some (s\<lparr>crashed := True, panic_msg := Some msg\<rparr>)
                     | AddReturn v \<Rightarrow> Some (s\<lparr>wg := v, workers := (workers s)[i := WExit]\<rparr>)
                     | AddRelease v w \<Rightarrow>
                         Some (s\<lparr>wg := v, workers := (workers s)[i := WRelease w WExit]\<rparr>))
                  else None))
        | WRun action \<Rightarrow>
            (case RunEventAction (lib c) (svc c) boundary action (eventName c) (eventPayload c) of
               Inl Panic \<Rightarrow>
                 Some (s\<lparr>wg := wg s - 1, workers := (workers s)[i := WExit], crashed := True,
                         panic_msg :=
                           Some ''runtime error: invalid memory address or nil pointer dereference''\<rparr>)
             | Inl (Failed err) \<Rightarrow>
                 Some (s\<lparr>completed := completed s @ [(action, Inl (Failed err))],
                         logged := logged s @ [LogError ''running event action'' err],
                         workers := (workers s)[i := WRecv]\<rparr>)
             | Inr r \<Rightarrow>
                 Some (s\<lparr>completed := completed s @ [(action, Inr r)],
                         workers := (workers s)[i := WRecv]\<rparr>))
        | WRelease w next \<Rightarrow>
            (if wg s \<noteq> 0 \<or> waiters s \<noteq> w
             then Some (s\<lparr>crashed := True,
                          panic_msg :=
                            Some ''sync: WaitGroup misuse: Add called concurrently with Wait''\<rparr>)
             else Some (s\<lparr>wg := 0, waiters := 0, sema := sema s + w,
                          workers := (workers s)[i := next]\<rparr>))
        | WExit \<Rightarrow> None))"

text \<open>
  A schedule is a list of ticks, each naming the goroutine that moves. A tick of a
  goroutine that is blocked or finished, or any tick after the process has crashed, is
  not executable.
\<close>

datatype tick = MainTick | WorkerTick nat string

definition step :: "'u call \<Rightarrow> tick \<Rightarrow> state \<Rightarrow> state option" where
  "step c t s =
     (if crashed s then None
      else (case t of MainTick \<Rightarrow> main_step s | WorkerTick i b \<Rightarrow> worker_step c i b s))"

fun exec :: "'u call \<Rightarrow> tick list \<Rightarrow> state \<Rightarrow> state option" where
  "exec c [] s = Some s"
| "exec c (t # ts) s = (case step c t s of None \<Rightarrow> None | Some s' \<Rightarrow> exec c ts s')"

text \<open>
  \<open>Publish c ts\<close> is the state the call \<open>c\<close> reaches under the schedule \<open>ts\<close>,
  if every tick of \<open>ts\<close> is executable. The call has returned in a state whose
  \<open>main\<close> is \<open>Returned r\<close>, with the error \<open>r\<close> or \<open>None\<close> for \<^verbatim>\<open>nil\<close>;
  the workers may still move after that. A property of every run is stated for all
  \<open>ts\<close> and \<open>s\<close> with \<open>Publish c ts = Some s\<close>.
\<close>

definition Publish :: "'u call \<Rightarrow> tick list \<Rightarrow> state option" where
  "Publish c ts = exec c ts (Publish_start c)"

text \<open>The number of workers inside \<^verbatim>\<open>RunEventAction\<close>.\<close>

definition in_flight :: "state \<Rightarrow> nat" where
  "in_flight s = length (filter (\<lambda>w. case w of WRun a \<Rightarrow> True | _ \<Rightarrow> False) (workers s))"

text \<open>
  The pool never grows beyond \<open>numWorkers\<close>: while the main goroutine is in its first
  loop there are as many workers as it has started.
\<close>

definition pool_bounded :: "state \<Rightarrow> bool" where
  "pool_bounded s =
     (case main s of
        Spawn w \<Rightarrow> w \<le> numWorkers \<and> length (workers s) = w
      | _ \<Rightarrow> length (workers s) \<le> numWorkers)"

subsection \<open>A concrete library, service and actions\<close>

text \<open>
  An instance on which the model can be run: URLs are kept as text, a URL is rejected
  when it holds an ASCII control byte (the first check of \<^verbatim>\<open>url.Parse\<close>), and path
  elements are appended after a slash. The actions are those of the example scenario:
  webhook \<open>A\<close>, code action \<open>B\<close>, and an action of a third type.
\<close>

definition hasCTLByte :: "string \<Rightarrow> bool" where
  "hasCTLByte u = list_ex (\<lambda>c. of_char c < (32::nat) \<or> of_char c = (127::nat)) u"

definition example_lib :: "string env" where
  "example_lib =
     \<lparr>ActionTypeCode = ''code'', ActionTypeWebhook = ''webhook'',
      url_Parse = (\<lambda>u. if hasCTLByte u
                          then Inl (Err ''net/url: invalid control character in URL'')
                          else Inr u),
      url_JoinPath = (\<lambda>base elems.
                        if hasCTLByte base
                        then Inl (Err ''net/url: invalid control character in URL'')
                        else Inr (base @ concat (map (\<lambda>e. ''/'' @ e) elems)))\<rparr>"

definition actionA :: EventActionDetailsDTO where
  "actionA = \<lparr>Id = 1, OrgId = 1, Name = ''A'', Type = ''webhook'', URL = ''http://h/hook'',
              Script = [], ScriptLanguage = [], RunnerSecret = []\<rparr>"

definition actionB :: EventActionDetailsDTO where
  "actionB = \<lparr>Id = 2, OrgId = 1, Name = ''B'', Type = ''code'', URL = ''http://r'',
              Script = ''print(1)'', ScriptLanguage = ''python'', RunnerSecret = ''s3cret''\<rparr>"

definition actionC :: EventActionDetailsDTO where
  "actionC = \<lparr>Id = 3, OrgId = 1, Name = ''C'', Type = ''email'', URL = ''http://m'',
              Script = [], ScriptLanguage = [], RunnerSecret = []\<rparr>"

definition examplePayload :: payload where
  "examplePayload = Encodable (JObject [(''id'', JNumber 42)])"

text \<open>An endpoint that answers every request with status 500.\<close>

definition example_client :: "string request \<Rightarrow> error + response" where
  "example_client req = Inr \<lparr>StatusCode = 500, Body_resp = Reader ''boom'' None\<rparr>"

definition example_call :: "EventActionDetailsDTO list \<Rightarrow> string call" where
  "example_call as =
     \<lparr>lib = example_lib,
      svc = \<lparr>actions = (\<lambda>org ev. Inr as), client = example_client\<rparr>,
      orgID = 1, eventName = ''user.created'', eventPayload = examplePayload\<rparr>"

definition failing_call :: "string call" where
  "failing_call =
     \<lparr>lib = example_lib,
      svc = \<lparr>actions = (\<lambda>org ev. Inl (Err ''storage lookup failed'')),
             client = example_client\<rparr>,
      orgID = 1, eventName = ''user.created'', eventPayload = examplePayload\<rparr>"

text \<open>The request the webhook builder makes for \<open>A\<close> in the example scenario.\<close>

definition requestA :: "string request" where
  "requestA =
     \<lparr>Method = ''POST'', URL_req = ''http://h/hook'',
      Header = [''Content-Type'' \<mapsto> [''application/json'']],
      Body_req = Plain (Document (JObject [(''eventName'', JString ''user.created''),
                                           (''orgId'', JNumber 1),
                                           (''payload'', JObject [(''id'', JNumber 42)])]))\<rparr>"

text \<open>A call whose store fails has \<open>failing_call\<close>; one whose endpoints refuse every connection:\<close>

definition refusing_call :: "EventActionDetailsDTO list \<Rightarrow> string call" where
  "refusing_call as =
     \<lparr>lib = example_lib,
      svc = \<lparr>actions = (\<lambda>org ev. Inr as),
             client = (\<lambda>req. Inl (Err ''dial tcp: connection refused''))\<rparr>,
      orgID = 1, eventName = ''user.created'', eventPayload = examplePayload\<rparr>"

text \<open>
  Schedules. \<open>main_first\<close>: the main goroutine runs from the first \<^verbatim>\<open>go\<close> statement
  through \<^verbatim>\<open>wg.Wait()\<close> for one action before any worker moves. \<open>all_busy\<close>: three
  actions, each worker inside \<^verbatim>\<open>RunEventAction\<close>. \<open>run_into_panic\<close>: one action,
  received and run by worker 0.
\<close>

definition main_first :: "tick list" where
  "main_first =
     [MainTick, MainTick, MainTick, MainTick, MainTick, MainTick, MainTick, MainTick]"

definition all_busy :: "tick list" where
  "all_busy =
     [MainTick, MainTick, MainTick, MainTick,
      WorkerTick 0 [], WorkerTick 1 [], WorkerTick 2 [],
      MainTick, MainTick, MainTick,
      WorkerTick 0 [], WorkerTick 1 [], WorkerTick 2 []]"

definition run_into_panic :: "tick list" where
  "run_into_panic =
     [MainTick, MainTick, MainTick, MainTick, MainTick,
      WorkerTick 0 [], WorkerTick 0 [], WorkerTick 0 []]"

text \<open>
  Schedules for a call with no action. In both, the main goroutine starts the workers
  and closes the channel (six ticks); worker 0 calls \<^verbatim>\<open>wg.Add(1)\<close>; the main
  goroutine enters \<^verbatim>\<open>wg.Wait()\<close>, finds the counter at one and goes to sleep; worker
  0 finds the channel closed and, in its deferred \<^verbatim>\<open>wg.Done()\<close>, brings the counter
  to zero. In \<open>reuse_none\<close> worker 0 then releases the main goroutine, worker 1 calls
  \<^verbatim>\<open>wg.Add(1)\<close>, and the main goroutine wakes and checks the state. In
  \<open>misuse_none\<close> worker 1 calls \<^verbatim>\<open>wg.Add(1)\<close> before worker 0 has released the
  main goroutine.
\<close>

definition reuse_none :: "tick list" where
  "reuse_none =
     [MainTick, MainTick, MainTick, MainTick, MainTick, MainTick,
      WorkerTick 0 [], MainTick, WorkerTick 0 [], WorkerTick 0 [],
      WorkerTick 1 [], MainTick, MainTick]"

definition misuse_none :: "tick list" where
  "misuse_none =
     [MainTick, MainTick, MainTick, MainTick, MainTick, MainTick,
      WorkerTick 0 [], MainTick, WorkerTick 0 [], WorkerTick 1 []]"

text \<open>
  Schedules for calls whose endpoints refuse the connection. \<open>misuse_one\<close>, for one
  action: the main goroutine starts the workers, sends the action and closes the channel
  (seven ticks); worker 0 calls \<^verbatim>\<open>wg.Add(1)\<close>; the main goroutine goes to sleep in
  \<^verbatim>\<open>wg.Wait()\<close>; worker 0 receives the action, runs it (the send fails), finds the
  channel closed and brings the counter to zero; worker 1 calls \<^verbatim>\<open>wg.Add(1)\<close>.
  \<open>fail_then_panic\<close>, for two actions: the main goroutine starts the workers and sends
  both actions (six ticks); worker 0 calls \<^verbatim>\<open>wg.Add(1)\<close>, receives and runs the
  first action (the send fails), receives and runs the second.
\<close>

definition misuse_one :: "tick list" where
  "misuse_one =
     [MainTick, MainTick, MainTick, MainTick, MainTick, MainTick, MainTick,
      WorkerTick 0 [], MainTick, WorkerTick 0 [], WorkerTick 0 [], WorkerTick 0 [],
      WorkerTick 1 []]"

definition fail_then_panic :: "tick list" where
  "fail_then_panic =
     [MainTick, MainTick, MainTick, MainTick, MainTick, MainTick,
      WorkerTick 0 [], WorkerTick 0 [], WorkerTick 0 [], WorkerTick 0 [], WorkerTick 0 []]"

section \<open>Lemmas\<close>

subsection \<open>Valid strings are written as they are\<close>

lemma coerceFrom_valid: "validFrom k s \<Longrightarrow> coerceFrom k s = s"
proof (induction s arbitrary: k)
  case Nil
  then show ?case by simp
next
  case (Cons c cs)
  show ?case
  proof (cases k)
    case 0
    with Cons show ?thesis by (auto split: nat.splits)
  next
    case (Suc j)
    with Cons show ?thesis by simp
  qed
qed

lemma coerceUTF8_valid: "ValidString s \<Longrightarrow> coerceUTF8 s = s"
  by (simp add: ValidString_def coerceUTF8_def coerceFrom_valid)

lemma coerceDoc_valid: "ValidDoc j \<Longrightarrow> coerceDoc j = j"
proof (induction j)
  case (JArray xs)
  then show ?case by (auto simp: list_all_iff intro: map_idI)
next
  case (JObject kvs)
  then show ?case by (auto simp: list_all_iff coerceUTF8_valid intro!: map_idI)
qed (simp_all add: coerceUTF8_valid)

lemma json_Marshal_valid: "ValidPayload p \<Longrightarrow> \<exists>j. p = Encodable j \<and> json_Marshal p = Inr j"
  by (cases p) (simp_all add: ValidPayload_def json_Marshal_def coerceDoc_valid)

subsection \<open>Runs\<close>

lemma exec_invariant:
  assumes "exec c ts s0 = Some s" and "P s0"
      and "\<And>s t s'. P s \<Longrightarrow> step c t s = Some s' \<Longrightarrow> P s'"
  shows "P s"
  using assms(1,2)
proof (induction ts arbitrary: s0)
  case Nil
  then show ?case by simp
next
  case (Cons t ts)
  then show ?case by (auto split: option.splits intro: assms(3))
qed

lemma stepE:
  assumes "step c t s = Some s'"
  obtains (main) "\<not> crashed s" "t = MainTick" "main_step s = Some s'"
  | (worker) i b where "\<not> crashed s" "t = WorkerTick i b" "worker_step c i b s = Some s'"
  using assms unfolding step_def by (auto split: if_splits tick.splits)

text \<open>A worker's step leaves the main goroutine where it is and the pool at its size.\<close>

lemma worker_step_pool:
  assumes "worker_step c i b s = Some s'"
  shows "main s' = main s \<and> length (workers s') = length (workers s)"
  using assms unfolding worker_step_def
  by (auto split: if_splits worker_pc.splits list.splits sum.splits failure.splits
      add_result.splits)

lemma main_step_pool:
  assumes "main_step s = Some s'" and "pool_bounded s"
  shows "pool_bounded s'"
  using assms unfolding main_step_def pool_bounded_def
  by (auto simp: numWorkers_def split: main_pc.splits if_splits list.splits)

lemma pool_bounded_step:
  assumes "pool_bounded s" and "step c t s = Some s'"
  shows "pool_bounded s'"
  using assms(2)
proof (cases rule: stepE)
  case main
  from main_step_pool[OF main(3) assms(1)] show ?thesis .
next
  case (worker i b)
  from worker_step_pool[OF worker(3)] assms(1) show ?thesis
    by (auto simp: pool_bounded_def split: main_pc.splits)
qed

lemma pool_bounded_start: "pool_bounded (Publish_start c)"
  by (simp add: Publish_start_def pool_bounded_def split: sum.splits)

text \<open>
  What holds of \<^verbatim>\<open>Publish\<close> on every schedule: a failed resolution is returned
  before any step, and after a successful one no error is ever returned.
\<close>

lemma resolution_failure_returns_at_once:
  assumes "actions (svc c) (orgID c) (eventName c) = Inl err" and "Publish c ts = Some s"
  shows "ts = [] \<and> main s = Returned (Some err) \<and> workers s = [] \<and> invoked s = []"
proof -
  have stuck: "step c t (Publish_start c) = None" for t
    using assms(1)
    by (simp add: Publish_start_def step_def main_step_def worker_step_def split: tick.splits)
  from assms(2) have ex: "exec c ts (Publish_start c) = Some s" by (simp add: Publish_def)
  with stuck have "ts = []" by (cases ts) auto
  with ex assms(1) show ?thesis by (auto simp: Publish_start_def)
qed

lemma no_error_step:
  assumes "\<forall>err. main s \<noteq> Returned (Some err)" and "step c t s = Some s'"
  shows "\<forall>err. main s' \<noteq> Returned (Some err)"
  using assms(2)
proof (cases rule: stepE)
  case main
  from main(3) assms(1) show ?thesis
    unfolding main_step_def by (auto split: main_pc.splits if_splits list.splits)
next
  case (worker i b)
  from worker_step_pool[OF worker(3)] assms(1) show ?thesis by simp
qed

lemma resolved_never_returns_error:
  assumes "actions (svc c) (orgID c) (eventName c) = Inr as" and "Publish c ts = Some s"
  shows "main s \<noteq> Returned (Some err)"
proof -
  from assms(2) have ex: "exec c ts (Publish_start c) = Some s" by (simp add: Publish_def)
  have "\<forall>err. main s \<noteq> Returned (Some err)"
    by (rule exec_invariant[OF ex]) (auto simp: Publish_start_def assms(1) dest: no_error_step)
  then show ?thesis by simp
qed

subsection \<open>Evaluating the examples\<close>

lemmas run_defs = Publish_def Publish_start_def step_def main_step_def worker_step_def
  wg_Add_def numWorkers_def example_call_def refusing_call_def example_lib_def
  example_client_def RunEventAction_def selectCreateRequest_def createWebhookRequest_def
  createRunnerRequest_def marshal_PublishEvent_def marshal_runnerMetadata_def json_Marshal_def
  http_NewRequest_def Header_Set_def NewWriter_def CreateFormFile_def CreatePart_def
  part_Write_def Close_def io_ReadAll_def hasCTLByte_def actionA_def actionB_def actionC_def
  examplePayload_def coerceUTF8_def runeLen_def byte_def cont_def

section \<open>The claims\<close>

subsection \<open>Request builders\<close>

text \<open>
  Claim C9. The code-runner request does not depend on the event name: for any two event
  names and the same boundary, payload and action, \<^verbatim>\<open>createRunnerRequest\<close> returns the
  same result, so the event name is never sent to a code runner. (The boundary is the
  random string the multipart writer draws; two calls in Go differ in it and in nothing
  else.)
\<close>

theorem createRunnerRequest_ignores_event_name:
  "createRunnerRequest l b e1 p a = createRunnerRequest l b e2 p a"
  by (simp add: createRunnerRequest_def)

text \<open>
  Claim C10. A request built by \<^verbatim>\<open>createWebhookRequest\<close> carries exactly one header,
  \<^verbatim>\<open>Content-Type: application/json\<close>; there is no \<^verbatim>\<open>Authorization\<close> header, and
  the request is the same whatever the action's runner secret is.
\<close>

theorem createWebhookRequest_single_header:
  assumes "createWebhookRequest l e p a = Inr req"
  shows "Header req = [''Content-Type'' \<mapsto> [''application/json'']]
       \<and> Header req ''Authorization'' = None
       \<and> createWebhookRequest l e p (a\<lparr>RunnerSecret := x\<rparr>) = Inr req"
  using assms
  by (auto simp: createWebhookRequest_def http_NewRequest_def Header_Set_def split: sum.splits)

theorem createWebhookRequest_single_header_witness:
  "Header requestA = [''Content-Type'' \<mapsto> [''application/json'']]
   \<and> Header requestA ''Authorization'' = None
   \<and> createWebhookRequest example_lib ''user.created'' examplePayload
        (actionA\<lparr>RunnerSecret := ''s3cret''\<rparr>) = Inr requestA"
proof -
  have "createWebhookRequest example_lib ''user.created'' examplePayload actionA = Inr requestA"
    by (simp add: run_defs requestA_def)
  from createWebhookRequest_single_header[OF this] show ?thesis .
qed

text \<open>
  Claim C3 (amended). For every event name that is valid UTF-8, every payload that has a
  JSON encoding in which all strings are valid UTF-8, and every action whose URL
  \<^verbatim>\<open>http.NewRequest\<close> accepts, \<^verbatim>\<open>createWebhookRequest\<close> produces a POST to the
  action's URL with header \<^verbatim>\<open>Content-Type: application/json\<close> whose body decodes to
  \<^verbatim>\<open>{eventName, orgId, payload}\<close>, where the event name and the payload are the
  builder's inputs and the org id is the one stored in the action.
\<close>

theorem createWebhookRequest_roundtrip:
  assumes "url_Parse l (URL a) = Inr u"
      and "ValidString e"
      and "ValidPayload p"
  shows "\<exists>req b. createWebhookRequest l e p a = Inr req
         \<and> Method req = ''POST'' \<and> URL_req req = u
         \<and> Header req ''Content-Type'' = Some [''application/json'']
         \<and> Body_req req = Plain (Document b)
         \<and> decode_PublishEvent b = Some \<lparr>EventName = e, EventOrgId = OrgId a, Payload = p\<rparr>"
proof -
  from json_Marshal_valid[OF assms(3)] obtain j
    where p: "p = Encodable j" and m: "json_Marshal p = Inr j"
    by blast
  from assms(1) m p coerceUTF8_valid[OF assms(2)] show ?thesis
    by (simp add: createWebhookRequest_def marshal_PublishEvent_def http_NewRequest_def
        Header_Set_def decode_PublishEvent_def)
qed

theorem createWebhookRequest_roundtrip_witness:
  "\<exists>req b. createWebhookRequest example_lib ''user.created'' examplePayload actionA = Inr req
     \<and> Method req = ''POST'' \<and> URL_req req = ''http://h/hook''
     \<and> Header req ''Content-Type'' = Some [''application/json'']
     \<and> Body_req req = Plain (Document b)
     \<and> decode_PublishEvent b
         = Some \<lparr>EventName = ''user.created'', EventOrgId = 1, Payload = examplePayload\<rparr>"
proof -
  have u: "url_Parse example_lib (URL actionA) = Inr ''http://h/hook''"
    by (simp add: example_lib_def actionA_def hasCTLByte_def)
  have e: "ValidString ''user.created''"
    by (simp add: ValidString_def runeLen_def byte_def)
  have p: "ValidPayload examplePayload"
    by (simp add: ValidPayload_def examplePayload_def ValidString_def runeLen_def byte_def)
  have o: "OrgId actionA = 1"
    by (simp add: actionA_def)
  from createWebhookRequest_roundtrip[OF u e p] o show ?thesis
    by simp
qed

text \<open>
  The claim as first stated asks this of every event name, payload and webhook action,
  and names the org id of the \<^verbatim>\<open>Publish\<close> call. Four inputs show the difference. An
  action whose URL ends in a line feed gets no request: the builder returns an error.
  The event name made of the one byte \<^verbatim>\<open>0xFF\<close> is decoded as U+FFFD (three bytes).
  So is a payload that is that string. And when a call for org 1 resolves an action
  stored under org 2, the body carries org id 2.
\<close>

theorem createWebhookRequest_claim_counterexample:
  "createWebhookRequest example_lib ''user.created'' examplePayload
     (actionA\<lparr>URL := ''http://h/hook'' @ [CHR 0x0A]\<rparr>)
     = Inl (Wrap ''cannot create webhook request''
              (Err ''net/url: invalid control character in URL''))
   \<and> decoded_body (createWebhookRequest example_lib [CHR 0xFF] examplePayload actionA)
       = Some \<lparr>EventName = [CHR 0xEF, CHR 0xBF, CHR 0xBD], EventOrgId = 1,
                Payload = examplePayload\<rparr>
   \<and> decoded_body
         (createWebhookRequest example_lib ''user.created'' (Encodable (JString [CHR 0xFF]))
            actionA)
       = Some \<lparr>EventName = ''user.created'', EventOrgId = 1,
                Payload = Encodable (JString [CHR 0xEF, CHR 0xBF, CHR 0xBD])\<rparr>
   \<and> orgID (example_call [actionA\<lparr>OrgId := 2\<rparr>]) = 1
   \<and> actions (svc (example_call [actionA\<lparr>OrgId := 2\<rparr>])) 1 ''user.created''
       = Inr [actionA\<lparr>OrgId := 2\<rparr>]
   \<and> decoded_body
         (createWebhookRequest example_lib ''user.created'' examplePayload
            (actionA\<lparr>OrgId := 2\<rparr>))
       = Some \<lparr>EventName = ''user.created'', EventOrgId = 2, Payload = examplePayload\<rparr>"
  by (simp add: run_defs decoded_body_def decode_PublishEvent_def)

text \<open>
  Claim C6 (amended). For every action whose name and script language are valid UTF-8 and
  whose URL \<^verbatim>\<open>url.JoinPath\<close> accepts (and whose joined URL \<^verbatim>\<open>http.NewRequest\<close>
  accepts), and every payload that has a JSON encoding, \<^verbatim>\<open>createRunnerRequest\<close>
  produces a POST to the joined URL with header
  \<^verbatim>\<open>Authorization: Bearer <runnerSecret>\<close> and the content type of the multipart
  writer. Its body is a multipart body under the writer's boundary, with the closing
  boundary written, of exactly three parts in this order: \<open>file1\<close>, an
  \<^verbatim>\<open>application/octet-stream\<close> part holding the script; \<open>metadata\<close>, an
  \<^verbatim>\<open>application/json\<close> part holding a document that decodes to the action's name, its
  script language and the entry point \<open>file1\<close>; and \<open>event\<close>, an
  \<^verbatim>\<open>application/json\<close> part holding the encoded payload.
\<close>

theorem createRunnerRequest_wire_format:
  assumes "url_JoinPath l (URL a) [''execute''] = Inr joined"
      and "url_Parse l joined = Inr u"
      and "json_Marshal p = Inr ev"
      and "ValidString (Name a)"
      and "ValidString (ScriptLanguage a)"
  shows "\<exists>req m file1 metadata event doc.
           createRunnerRequest l b e p a = Inr req
         \<and> Method req = ''POST'' \<and> URL_req req = u
         \<and> Header req ''Authorization'' = Some [''Bearer '' @ RunnerSecret a]
         \<and> Header req ''Content-Type'' = Some [FormDataContentType m]
         \<and> Body_req req = Multipart m
         \<and> Boundary m = b \<and> Closed m
         \<and> Parts m = [file1, metadata, event]
         \<and> FormName file1 = ''file1'' \<and> PartData file1 = [Text (Script a)]
         \<and> PartHeader file1 ''Content-Type'' = Some [''application/octet-stream'']
         \<and> FormName metadata = ''metadata'' \<and> PartData metadata = [Document doc]
         \<and> PartHeader metadata ''Content-Type'' = Some [''application/json'']
         \<and> decode_runnerMetadata doc
             = Some \<lparr>MetaName = Name a, Lang = ScriptLanguage a, Entry = ''file1''\<rparr>
         \<and> FormName event = ''event'' \<and> PartData event = [Document ev]
         \<and> PartHeader event ''Content-Type'' = Some [''application/json'']"
proof -
  have f: "coerceUTF8 ''file1'' = ''file1''"
    by (simp add: coerceUTF8_def runeLen_def byte_def)
  from assms(1,2,3) coerceUTF8_valid[OF assms(4)] coerceUTF8_valid[OF assms(5)] f
  show ?thesis
    by (simp add: createRunnerRequest_def marshal_runnerMetadata_def NewWriter_def
        CreateFormFile_def CreatePart_def part_Write_def Close_def http_NewRequest_def
        Header_Set_def FormName_def escapeQuotes_def decode_runnerMetadata_def)
qed

theorem createRunnerRequest_wire_format_witness:
  "\<exists>req m file1 metadata event doc.
     createRunnerRequest example_lib ''xyz'' ''user.created'' examplePayload actionB = Inr req
   \<and> Method req = ''POST'' \<and> URL_req req = ''http://r/execute''
   \<and> Header req ''Authorization'' = Some [''Bearer s3cret'']
   \<and> Header req ''Content-Type'' = Some [FormDataContentType m]
   \<and> Body_req req = Multipart m
   \<and> Boundary m = ''xyz'' \<and> Closed m
   \<and> Parts m = [file1, metadata, event]
   \<and> FormName file1 = ''file1'' \<and> PartData file1 = [Text ''print(1)'']
   \<and> PartHeader file1 ''Content-Type'' = Some [''application/octet-stream'']
   \<and> FormName metadata = ''metadata'' \<and> PartData metadata = [Document doc]
   \<and> PartHeader metadata ''Content-Type'' = Some [''application/json'']
   \<and> decode_runnerMetadata doc = Some \<lparr>MetaName = ''B'', Lang = ''python'', Entry = ''file1''\<rparr>
   \<and> FormName event = ''event''
   \<and> PartData event = [Document (JObject [(''id'', JNumber 42)])]
   \<and> PartHeader event ''Content-Type'' = Some [''application/json'']"
proof -
  have j: "url_JoinPath example_lib (URL actionB) [''execute''] = Inr ''http://r/execute''"
    by (simp add: example_lib_def actionB_def hasCTLByte_def)
  have u: "url_Parse example_lib ''http://r/execute'' = Inr ''http://r/execute''"
    by (simp add: example_lib_def hasCTLByte_def)
  have p: "json_Marshal examplePayload = Inr (JObject [(''id'', JNumber 42)])"
    by (simp add: json_Marshal_def examplePayload_def coerceUTF8_def runeLen_def byte_def)
  have b: "RunnerSecret actionB = ''s3cret''" "Script actionB = ''print(1)''"
    "Name actionB = ''B''" "ScriptLanguage actionB = ''python''"
    by (simp_all add: actionB_def)
  have v: "ValidString (Name actionB)" "ValidString (ScriptLanguage actionB)"
    by (simp_all add: actionB_def ValidString_def runeLen_def byte_def)
  from createRunnerRequest_wire_format[OF j u p v, of "''xyz''" "''user.created''"] b
  show ?thesis by simp
qed

text \<open>
  The claim as first stated asks this of every action. For an action named by the one
  byte \<^verbatim>\<open>0xFF\<close> the metadata part decodes to the name U+FFFD (three bytes), not to
  the action's name; the same holds of the script language.
\<close>

theorem createRunnerRequest_claim_counterexample:
  "decoded_metadata
     (createRunnerRequest example_lib ''xyz'' ''user.created'' examplePayload
        (actionB\<lparr>Name := [CHR 0xFF]\<rparr>))
     = Some \<lparr>MetaName = [CHR 0xEF, CHR 0xBF, CHR 0xBD], Lang = ''python'', Entry = ''file1''\<rparr>
   \<and> decoded_metadata
       (createRunnerRequest example_lib ''xyz'' ''user.created'' examplePayload
          (actionB\<lparr>ScriptLanguage := [CHR 0xFF]\<rparr>))
     = Some \<lparr>MetaName = ''B'', Lang = [CHR 0xEF, CHR 0xBF, CHR 0xBD], Entry = ''file1''\<rparr>"
  by (simp add: run_defs decoded_metadata_def decode_runnerMetadata_def)

subsection \<open>The executor\<close>

text \<open>
  Claim C5. When the request is built, the send succeeds and the response body can be
  read to its end, \<^verbatim>\<open>RunEventAction\<close> returns a result, not an error, holding the
  status code and the whole body of the response, whatever the status code is.
\<close>

theorem RunEventAction_status_is_data:
  assumes "selectCreateRequest l b a = Some createRequest"
      and "createRequest e p a = Inr req"
      and "client s req = Inr resp"
      and "io_ReadAll (Body_resp resp) = Inr bs"
  shows "RunEventAction l s b a e p = Inr \<lparr>Code = StatusCode resp, Body = bs\<rparr>"
  using assms by (simp add: RunEventAction_def)

theorem RunEventAction_status_is_data_witness:
  "RunEventAction example_lib (svc (example_call [actionA])) [] actionA ''user.created''
     examplePayload = Inr \<lparr>Code = 500, Body = ''boom''\<rparr>"
proof -
  have 1: "selectCreateRequest example_lib [] actionA = Some (createWebhookRequest example_lib)"
    by (simp add: selectCreateRequest_def example_lib_def actionA_def)
  have 2: "createWebhookRequest example_lib ''user.created'' examplePayload actionA = Inr requestA"
    by (simp add: run_defs requestA_def)
  have 3: "client (svc (example_call [actionA])) requestA
             = Inr \<lparr>StatusCode = 500, Body_resp = Reader ''boom'' None\<rparr>"
    by (simp add: example_call_def example_client_def)
  have 4: "io_ReadAll (Body_resp \<lparr>StatusCode = 500, Body_resp = Reader ''boom'' None\<rparr>)
             = Inr ''boom''"
    by (simp add: io_ReadAll_def)
  from RunEventAction_status_is_data[OF 1 2 3 4] show ?thesis by simp
qed

text \<open>
  Claim C2. The claim asks that an action whose type is neither of the two known types
  makes \<^verbatim>\<open>RunEventAction\<close> return an error, and that \<^verbatim>\<open>Publish\<close> still returns
  success. In the code the \<^verbatim>\<open>switch\<close> has no default case, the function value stays
  \<^verbatim>\<open>nil\<close>, and calling it panics: for action \<open>C\<close> of type \<^verbatim>\<open>email\<close> the call
  panics, and a run of \<^verbatim>\<open>Publish\<close> in which a worker receives \<open>C\<close> ends with the
  process crashed while the main goroutine has not returned.
\<close>

theorem RunEventAction_unknown_type_panics:
  "RunEventAction example_lib (svc (example_call [actionC])) [] actionC ''user.created''
     examplePayload = Inl Panic
   \<and> map_option (\<lambda>s. (crashed s, main s, completed s))
       (Publish (example_call [actionC]) run_into_panic)
     = Some (True, Send [], [])"
  by (simp add: run_defs run_into_panic_def)

subsection \<open>Publish\<close>

text \<open>
  Claim C8. In every state of every run of a \<^verbatim>\<open>Publish\<close> call, whatever the
  schedule, at most three workers are inside \<^verbatim>\<open>RunEventAction\<close>.
\<close>

theorem at_most_three_in_flight:
  assumes "Publish c ts = Some s"
  shows "in_flight s \<le> 3"
proof -
  from assms have "exec c ts (Publish_start c) = Some s" by (simp add: Publish_def)
  then have "pool_bounded s"
    by (rule exec_invariant) (auto intro: pool_bounded_start pool_bounded_step)
  then have "length (workers s) \<le> numWorkers"
    by (auto simp: pool_bounded_def split: main_pc.splits)
  moreover have "in_flight s \<le> length (workers s)" by (simp add: in_flight_def)
  ultimately show ?thesis by (simp add: numWorkers_def)
qed

text \<open>The bound is reached: with three actions, all three workers can be busy at once.\<close>

theorem at_most_three_in_flight_witness:
  "map_option in_flight (Publish (example_call [actionA, actionB, actionA]) all_busy) = Some 3
   \<and> (\<exists>s. Publish (example_call [actionA, actionB, actionA]) all_busy = Some s
          \<and> in_flight s \<le> 3)"
proof -
  have m: "map_option in_flight (Publish (example_call [actionA, actionB, actionA]) all_busy)
             = Some 3"
    by (simp add: run_defs in_flight_def all_busy_def)
  then obtain s where s: "Publish (example_call [actionA, actionB, actionA]) all_busy = Some s"
    by auto
  from at_most_three_in_flight[OF s] s m show ?thesis by auto
qed

text \<open>
  Claim C7. The claim asks that a call whose resolution gives no action returns
  \<^verbatim>\<open>nil\<close> without running anything. Nothing is run, but the three workers are still
  started and each calls \<^verbatim>\<open>wg.Add(1)\<close> itself, concurrently with the main goroutine's
  \<^verbatim>\<open>wg.Wait()\<close>. When the main goroutine has gone to sleep on a counter of one and that
  counter falls to zero, a later \<^verbatim>\<open>wg.Add(1)\<close> of another worker makes the wait group
  panic: in \<^verbatim>\<open>wg.Wait()\<close> when the main goroutine wakes, or in \<^verbatim>\<open>wg.Add\<close> itself
  when the main goroutine has not been released yet. Either way \<^verbatim>\<open>Publish\<close> does not
  return \<^verbatim>\<open>nil\<close>.
\<close>

theorem Publish_no_actions_can_panic:
  "map_option (\<lambda>s. (crashed s, panic_msg s, main s, invoked s))
     (Publish (example_call []) reuse_none)
     = Some (True, Some ''sync: WaitGroup is reused before previous Wait has returned'',
             Woken, [])
   \<and> map_option (\<lambda>s. (crashed s, panic_msg s, main s, invoked s))
       (Publish (example_call []) misuse_none)
     = Some (True, Some ''sync: WaitGroup misuse: Add called concurrently with Wait'',
             Sleeping, [])"
  by (simp add: run_defs reuse_none_def misuse_none_def)

text \<open>
  Claim C4. The claim asks that \<^verbatim>\<open>Publish\<close> returns an error exactly when the
  resolution fails, and \<^verbatim>\<open>nil\<close> otherwise, whatever happens to the actions. A failed
  resolution is returned at once and no error is returned after a successful one
  (lemmas \<open>resolution_failure_returns_at_once\<close> and \<open>resolved_never_returns_error\<close>),
  but \<^verbatim>\<open>nil\<close> is not always returned. With one webhook action
  whose endpoint refuses the connection, the failure is logged and then the wait group
  panics while the main goroutine is asleep in \<^verbatim>\<open>wg.Wait()\<close>. With a webhook action
  and an action of a third type, the first failure is logged and the second action
  panics in \<^verbatim>\<open>RunEventAction\<close> before the main goroutine has closed the channel.
\<close>

theorem Publish_resolved_can_panic:
  "map_option (\<lambda>s. (crashed s, panic_msg s, main s, map snd (completed s)))
     (Publish (refusing_call [actionA]) misuse_one)
     = Some (True, Some ''sync: WaitGroup misuse: Add called concurrently with Wait'',
             Sleeping,
             [Inl (Failed (Wrap ''cannot perform request''
                             (Err ''dial tcp: connection refused'')))])
   \<and> map_option (\<lambda>s. (crashed s, panic_msg s, main s, map snd (completed s)))
       (Publish (refusing_call [actionA, actionC]) fail_then_panic)
     = Some (True, Some ''runtime error: invalid memory address or nil pointer dereference'',
             Send [],
             [Inl (Failed (Wrap ''cannot perform request''
                             (Err ''dial tcp: connection refused'')))])"
  by (simp add: run_defs misuse_one_def fail_then_panic_def)

text \<open>
  Claim C1. The claim asks that \<^verbatim>\<open>Publish\<close> does not return before every resolved
  action has been run. Each worker calls \<^verbatim>\<open>wg.Add(1)\<close> itself, after it has been
  started, so the counter is still zero while no worker has moved: with one resolved
  action, the main goroutine can start the three workers, send the action, close the
  channel and pass \<^verbatim>\<open>wg.Wait()\<close>, returning \<^verbatim>\<open>nil\<close> while all three workers are
  at their first statement and \<^verbatim>\<open>RunEventAction\<close> has not been invoked.
\<close>

theorem Publish_returns_before_executions:
  "map_option (\<lambda>s. (main s, workers s, jobs s, wg s, invoked s, completed s))
     (Publish (example_call [actionA]) main_first)
   = Some (Returned None, [WStart, WStart, WStart], [actionA], 0, [], [])"
  by (simp add: run_defs main_first_def)

end
